theory Spec2Isabelle
  imports Complex_Main "HOL-Library.Sublist"
begin

section \<open>Library management API: values, validators and request handlers of app.py\<close>

subsection \<open>JSON payloads and Python exceptions\<close>

text \<open>
  \<^verbatim>\<open>request.get_json()\<close> returns the parsed body: any JSON value. A dict is an
  association list read with \<open>map_of\<close>; the empty dict is \<open>JObj []\<close>. A string is
  a list of code points, \<open>char\<close> covering the code points 0 to 255. A float is the
  real number it denotes.
\<close>

datatype json =
    JNull
  | JBool bool
  | JInt int
  | JFloat real
  | JStr string
  | JArr "json list"
  | JObj "(string \<times> json) list"

datatype py_error = TypeError | KeyError | AttributeError | ValueError | EmailNotValidError

text \<open>\<^verbatim>\<open>bool(v)\<close>, the truth value that \<^verbatim>\<open>not v\<close> and \<^verbatim>\<open>if v\<close> test.\<close>

fun truthy :: "json \<Rightarrow> bool" where
  "truthy JNull = False"
| "truthy (JBool b) = b"
| "truthy (JInt i) = (i \<noteq> 0)"
| "truthy (JFloat x) = (x \<noteq> 0)"
| "truthy (JStr s) = (s \<noteq> [])"
| "truthy (JArr xs) = (xs \<noteq> [])"
| "truthy (JObj kvs) = (kvs \<noteq> [])"

text \<open>
  \<^verbatim>\<open>field in data\<close>: key membership in a dict, element membership in a list,
  substring test in a string, TypeError for None, booleans and numbers.
\<close>

fun py_in :: "string \<Rightarrow> json \<Rightarrow> py_error + bool" where
  "py_in k (JObj kvs) = Inr (map_of kvs k \<noteq> None)"
| "py_in k (JArr xs) = Inr (JStr k \<in> set xs)"
| "py_in k (JStr s) = Inr (sublist k s)"
| "py_in k JNull = Inl TypeError"
| "py_in k (JBool b) = Inl TypeError"
| "py_in k (JInt i) = Inl TypeError"
| "py_in k (JFloat x) = Inl TypeError"

text \<open>\<^verbatim>\<open>data[field]\<close> with a string subscript: only a dict supports it.\<close>

fun py_getitem :: "json \<Rightarrow> string \<Rightarrow> py_error + json" where
  "py_getitem (JObj kvs) k = (case map_of kvs k of None \<Rightarrow> Inl KeyError | Some v \<Rightarrow> Inr v)"
| "py_getitem JNull k = Inl TypeError"
| "py_getitem (JBool b) k = Inl TypeError"
| "py_getitem (JInt i) k = Inl TypeError"
| "py_getitem (JFloat x) k = Inl TypeError"
| "py_getitem (JStr s) k = Inl TypeError"
| "py_getitem (JArr xs) k = Inl TypeError"

text \<open>\<^verbatim>\<open>data.get(field, default)\<close>: a method of dict only.\<close>

fun py_get :: "json \<Rightarrow> string \<Rightarrow> json \<Rightarrow> py_error + json" where
  "py_get (JObj kvs) k d = (case map_of kvs k of None \<Rightarrow> Inr d | Some v \<Rightarrow> Inr v)"
| "py_get JNull k d = Inl AttributeError"
| "py_get (JBool b) k d = Inl AttributeError"
| "py_get (JInt i) k d = Inl AttributeError"
| "py_get (JFloat x) k d = Inl AttributeError"
| "py_get (JStr s) k d = Inl AttributeError"
| "py_get (JArr xs) k d = Inl AttributeError"

subsection \<open>Strings\<close>

text \<open>
  The whitespace of \<^verbatim>\<open>str.strip()\<close>, \<^verbatim>\<open>str.isspace()\<close> and the regular
  expression class \<^verbatim>\<open>\s\<close>, among the code points below 256.
\<close>

definition py_isspace :: "char \<Rightarrow> bool" where
  "py_isspace c = (of_char c \<in> {9, 10, 11, 12, 13, 28, 29, 30, 31, 32, 133, 160 :: nat})"

definition strip :: "string \<Rightarrow> string" where
  "strip s = rev (dropWhile py_isspace (rev (dropWhile py_isspace s)))"

text \<open>\<^verbatim>\<open>v.strip()\<close> on a payload value: a method of str only.\<close>

fun py_strip :: "json \<Rightarrow> py_error + string" where
  "py_strip (JStr s) = Inr (strip s)"
| "py_strip JNull = Inl AttributeError"
| "py_strip (JBool b) = Inl AttributeError"
| "py_strip (JInt i) = Inl AttributeError"
| "py_strip (JFloat x) = Inl AttributeError"
| "py_strip (JArr xs) = Inl AttributeError"
| "py_strip (JObj kvs) = Inl AttributeError"

definition is_digit :: "char \<Rightarrow> bool" where
  "is_digit c = (48 \<le> (of_char c :: nat) \<and> (of_char c :: nat) \<le> 57)"

definition digit_val :: "char \<Rightarrow> nat" where
  "digit_val c = of_char c - 48"

definition is_ascii_letter :: "char \<Rightarrow> bool" where
  "is_ascii_letter c =
     (65 \<le> (of_char c :: nat) \<and> (of_char c :: nat) \<le> 90 \<or>
      97 \<le> (of_char c :: nat) \<and> (of_char c :: nat) \<le> 122)"

subsection \<open>The conversion int() on a string\<close>

text \<open>
  \<^verbatim>\<open>int(s)\<close> in base 10: surrounding whitespace is skipped (the set differs from
  that of \<open>strip\<close>: the separators 28 to 31 are not skipped), then an optional sign,
  then decimal digits, single underscores allowed between two digits. Anything else
  raises ValueError, and so does a literal of more digits than the interpreter's limit
  (4300 by default; signs and underscores are not counted, leading zeros are).
\<close>

definition int_isspace :: "char \<Rightarrow> bool" where
  "int_isspace c = (of_char c \<in> {9, 10, 11, 12, 13, 32, 133, 160 :: nat})"

definition int_max_str_digits :: nat where
  "int_max_str_digits = 4300"

fun int_digits :: "string \<Rightarrow> nat \<Rightarrow> nat option" where
  "int_digits [] acc = Some acc"
| "int_digits (c # cs) acc =
     (if is_digit c then int_digits cs (10 * acc + digit_val c)
      else if c = CHR ''_'' then
        (case cs of
           [] \<Rightarrow> None
         | d # ds \<Rightarrow> if is_digit d then int_digits cs acc else None)
      else None)"

definition py_int :: "string \<Rightarrow> py_error + int" where
  "py_int s =
     (let t = rev (dropWhile int_isspace (rev (dropWhile int_isspace s)));
          neg = (case t of [] \<Rightarrow> False | c # r \<Rightarrow> c = CHR ''-'');
          body = (case t of [] \<Rightarrow> [] | c # r \<Rightarrow> if c = CHR ''-'' \<or> c = CHR ''+'' then r else t)
      in case body of
           [] \<Rightarrow> Inl ValueError
         | d # ds \<Rightarrow>
             if \<not> is_digit d then Inl ValueError
             else if int_max_str_digits < length (filter is_digit body) then Inl ValueError
             else (case int_digits body 0 of
                     None \<Rightarrow> Inl ValueError
                   | Some n \<Rightarrow> Inr (if neg then - int n else int n)))"

subsection \<open>Validators\<close>

text \<open>
  The loop over \<^verbatim>\<open>required_fields\<close>, the same in validate_book_data and in
  validate_member_data. \<open>Inr (Some r)\<close> is a \<^verbatim>\<open>return r\<close> inside the loop,
  \<open>Inr None\<close> the loop running to its end, \<open>Inl e\<close> an exception.
\<close>

fun check_required :: "json \<Rightarrow> string list \<Rightarrow> py_error + (bool \<times> string) option" where
  "check_required data [] = Inr None"
| "check_required data (field # fields) =
     (case py_in field data of
        Inl e \<Rightarrow> Inl e
      | Inr present \<Rightarrow>
          if \<not> present then Inr (Some (False, ''Missing required field: '' @ field))
          else (case py_getitem data field of
                  Inl e \<Rightarrow> Inl e
                | Inr v \<Rightarrow>
                    (case v of
                       JStr x \<Rightarrow>
                         if strip x = [] then Inr (Some (False, field @ '' cannot be empty''))
                         else check_required data fields
                     | _ \<Rightarrow> Inr (Some (False, field @ '' must be a string'')))))"

definition validate_book_data :: "json \<Rightarrow> py_error + (bool \<times> string)" where
  "validate_book_data data =
     (if \<not> truthy data then Inr (False, ''No data provided'')
      else (case check_required data [''title'', ''author''] of
              Inl e \<Rightarrow> Inl e
            | Inr (Some r) \<Rightarrow> Inr r
            | Inr None \<Rightarrow> Inr (True, '''')))"

text \<open>
  \<^verbatim>\<open>re.match(r'^[a-zA-Z\s-]{2,50}$', name)\<close>: 2 to 50 characters of the class,
  up to the end of the string or to a newline that ends it. A subject that is not a
  string raises TypeError.
\<close>

definition name_char :: "char \<Rightarrow> bool" where
  "name_char c = (is_ascii_letter c \<or> py_isspace c \<or> c = CHR ''-'')"

definition name_run :: "string \<Rightarrow> bool" where
  "name_run s = (2 \<le> length s \<and> length s \<le> 50 \<and> list_all name_char s)"

definition name_re_match :: "string \<Rightarrow> bool" where
  "name_re_match s = (name_run s \<or> (s \<noteq> [] \<and> last s = CHR 0x0A \<and> name_run (butlast s)))"

fun re_match_name :: "json \<Rightarrow> py_error + bool" where
  "re_match_name (JStr s) = Inr (name_re_match s)"
| "re_match_name JNull = Inl TypeError"
| "re_match_name (JBool b) = Inl TypeError"
| "re_match_name (JInt i) = Inl TypeError"
| "re_match_name (JFloat x) = Inl TypeError"
| "re_match_name (JArr xs) = Inl TypeError"
| "re_match_name (JObj kvs) = Inl TypeError"

text \<open>
  \<^verbatim>\<open>validate_email\<close> is imported from the package email_validator, which is not
  part of the repository: the validator takes it as the parameter \<open>ve\<close>. \<open>ve v\<close> is
  \<open>Inl e\<close> when the call raises \<open>e\<close>, and \<open>Inr b\<close> when it returns an object whose
  truth value is \<open>b\<close>.
\<close>

type_synonym email_lib = "json \<Rightarrow> py_error + bool"

definition validate_member_data :: "email_lib \<Rightarrow> json \<Rightarrow> py_error + (bool \<times> string)" where
  "validate_member_data ve data =
     (if \<not> truthy data then Inr (False, ''No data provided'')
      else (case check_required data [''name'', ''email''] of
              Inl e \<Rightarrow> Inl e
            | Inr (Some r) \<Rightarrow> Inr r
            | Inr None \<Rightarrow>
                (case py_getitem data ''name'' of
                   Inl e \<Rightarrow> Inl e
                 | Inr n \<Rightarrow>
                     (case re_match_name n of
                        Inl e \<Rightarrow> Inl e
                      | Inr matched \<Rightarrow>
                          if \<not> matched then
                            Inr (False, ''Name must be 2-50 characters and contain only letters, spaces, and hyphens'')
                          else (case py_getitem data ''email'' of
                                  Inl e \<Rightarrow> Inl e
                                | Inr em \<Rightarrow>
                                    (case ve em of
                                       Inl e \<Rightarrow> Inl e
                                     | Inr accepted \<Rightarrow>
                                         if \<not> accepted then Inr (False, ''Invalid email address'')
                                         else Inr (True, '''')))))))"

text \<open>
  \<^verbatim>\<open>int(x) if x else d\<close> on an optional query parameter: None and the empty
  string are false.
\<close>

fun int_or_default :: "string option \<Rightarrow> int \<Rightarrow> py_error + int" where
  "int_or_default None d = Inr d"
| "int_or_default (Some s) d = (if s = [] then Inr d else py_int s)"

text \<open>\<^verbatim>\<open>try: ... except ValueError: return r\<close>: any other exception propagates.\<close>

fun except_ValueError :: "py_error + 'a \<Rightarrow> 'a \<Rightarrow> py_error + 'a" where
  "except_ValueError (Inr v) r = Inr v"
| "except_ValueError (Inl e) r = (if e = ValueError then Inr r else Inl e)"

definition validate_pagination_params ::
  "string option \<Rightarrow> string option \<Rightarrow> py_error + (bool \<times> string \<times> (string \<times> int) list)" where
  "validate_pagination_params page per_page =
     except_ValueError
       (case int_or_default page 1 of
          Inl e \<Rightarrow> Inl e
        | Inr page_num \<Rightarrow>
            (case int_or_default per_page 10 of
               Inl e \<Rightarrow> Inl e
             | Inr items_per_page \<Rightarrow>
                 if page_num < 1 then Inr (False, ''Page number must be positive'', [])
                 else if items_per_page < 1 \<or> items_per_page > 100 then
                   Inr (False, ''Items per page must be between 1 and 100'', [])
                 else Inr (True, '''', [(''page'', page_num), (''per_page'', items_per_page)])))
       (False, ''Invalid pagination parameters'', [])"

subsection \<open>Entities and the store\<close>

text \<open>
  Modelled from the spec: the classes Book and Member and the session \<^verbatim>\<open>db\<close> of
  models.py, which is not among the sources. A Book has the fields id, title, author,
  available and a Member the fields id, name, email; \<^verbatim>\<open>to_dict\<close> maps the field
  names to the values. An id is generated by the store and unique. A field holds the
  value the handler assigns to it. A table is the list of its rows in insertion order.
\<close>

record book =
  book_id :: nat
  book_title :: string
  book_author :: string
  book_available :: json

record member =
  member_id :: nat
  member_name :: json
  member_email :: json

record store =
  books :: "book list"
  members :: "member list"

text \<open>Modelled from the spec: the methods \<^verbatim>\<open>to_dict\<close> of models.py, by the record shapes of the API.\<close>

definition book_to_dict :: "book \<Rightarrow> json" where
  "book_to_dict b =
     JObj [(''id'', JInt (int (book_id b))), (''title'', JStr (book_title b)),
           (''author'', JStr (book_author b)), (''available'', book_available b)]"

definition member_to_dict :: "member \<Rightarrow> json" where
  "member_to_dict m =
     JObj [(''id'', JInt (int (member_id m))), (''name'', member_name m),
           (''email'', member_email m)]"

text \<open>Modelled from the spec: the generated id is larger than every id of the table.\<close>

definition fresh_id :: "nat list \<Rightarrow> nat" where
  "fresh_id ids = Suc (fold max ids 0)"

text \<open>
  Modelled from the spec: \<^verbatim>\<open>Book.query.get(id)\<close> is the row with that primary key;
  committing changed attributes updates the rows with the object's key, committing a
  deletion removes them, committing an added object appends a row.
\<close>

definition db_get :: "store \<Rightarrow> nat \<Rightarrow> book option" where
  "db_get s bid = find (\<lambda>b. book_id b = bid) (books s)"

definition db_update :: "store \<Rightarrow> book \<Rightarrow> store" where
  "db_update s b' = s\<lparr>books := map (\<lambda>b. if book_id b = book_id b' then b' else b) (books s)\<rparr>"

definition db_delete :: "store \<Rightarrow> book \<Rightarrow> store" where
  "db_delete s b' = s\<lparr>books := filter (\<lambda>b. book_id b \<noteq> book_id b') (books s)\<rparr>"

definition db_add_book :: "store \<Rightarrow> book \<Rightarrow> store" where
  "db_add_book s b = s\<lparr>books := books s @ [b]\<rparr>"

definition db_add_member :: "store \<Rightarrow> member \<Rightarrow> store" where
  "db_add_member s m = s\<lparr>members := members s @ [m]\<rparr>"

subsection \<open>Request handlers\<close>

text \<open>
  A handler maps the request and the store to the store after the request and the
  response (the JSON body and the status code), or to the exception it raises, in which
  case nothing is committed.
\<close>

type_synonym response = "json \<times> nat"

definition validation_failed :: "string \<Rightarrow> response" where
  "validation_failed error_message =
     (JObj [(''error'', JStr ''Validation failed''), (''message'', JStr error_message)], 400)"

definition book_not_found :: response where
  "book_not_found = (JObj [(''error'', JStr ''Not found''), (''message'', JStr ''Book not found'')], 404)"

definition create_book :: "json \<Rightarrow> store \<Rightarrow> py_error + (store \<times> response)" where
  "create_book data s =
     (case validate_book_data data of
        Inl e \<Rightarrow> Inl e
      | Inr (is_valid, error_message) \<Rightarrow>
          if \<not> is_valid then Inr (s, validation_failed error_message)
          else (case py_getitem data ''title'' of Inl e \<Rightarrow> Inl e | Inr t \<Rightarrow>
               (case py_strip t of Inl e \<Rightarrow> Inl e | Inr t' \<Rightarrow>
               (case py_getitem data ''author'' of Inl e \<Rightarrow> Inl e | Inr a \<Rightarrow>
               (case py_strip a of Inl e \<Rightarrow> Inl e | Inr a' \<Rightarrow>
               (case py_get data ''available'' (JBool True) of Inl e \<Rightarrow> Inl e | Inr av \<Rightarrow>
                  (let new_book = \<lparr>book_id = fresh_id (map book_id (books s)), book_title = t',
                                   book_author = a', book_available = av\<rparr>
                   in Inr (db_add_book s new_book,
                           (JObj [(''message'', JStr ''Book created successfully''),
                                  (''book'', book_to_dict new_book)], 201)))))))))"

text \<open>\<^verbatim>\<open>any(key in data for key in keys)\<close>, evaluated from left to right.\<close>

fun any_in :: "json \<Rightarrow> string list \<Rightarrow> py_error + bool" where
  "any_in data [] = Inr False"
| "any_in data (k # ks) =
     (case py_in k data of
        Inl e \<Rightarrow> Inl e
      | Inr present \<Rightarrow> if present then Inr True else any_in data ks)"

text \<open>The three conditional assignments of update_book, on the object fetched.\<close>

definition set_title :: "json \<Rightarrow> book \<Rightarrow> py_error + book" where
  "set_title data b =
     (case py_in ''title'' data of
        Inl e \<Rightarrow> Inl e
      | Inr present \<Rightarrow>
          if \<not> present then Inr b
          else (case py_getitem data ''title'' of Inl e \<Rightarrow> Inl e | Inr v \<Rightarrow>
               (case py_strip v of Inl e \<Rightarrow> Inl e | Inr t \<Rightarrow> Inr (b\<lparr>book_title := t\<rparr>))))"

definition set_author :: "json \<Rightarrow> book \<Rightarrow> py_error + book" where
  "set_author data b =
     (case py_in ''author'' data of
        Inl e \<Rightarrow> Inl e
      | Inr present \<Rightarrow>
          if \<not> present then Inr b
          else (case py_getitem data ''author'' of Inl e \<Rightarrow> Inl e | Inr v \<Rightarrow>
               (case py_strip v of Inl e \<Rightarrow> Inl e | Inr a \<Rightarrow> Inr (b\<lparr>book_author := a\<rparr>))))"

definition set_available :: "json \<Rightarrow> book \<Rightarrow> py_error + book" where
  "set_available data b =
     (case py_in ''available'' data of
        Inl e \<Rightarrow> Inl e
      | Inr present \<Rightarrow>
          if \<not> present then Inr b
          else (case py_getitem data ''available'' of Inl e \<Rightarrow> Inl e | Inr v \<Rightarrow>
                  Inr (b\<lparr>book_available := JBool (truthy v)\<rparr>)))"

definition update_book :: "nat \<Rightarrow> json \<Rightarrow> store \<Rightarrow> py_error + (store \<times> response)" where
  "update_book bid data s =
     (case any_in data [''title'', ''author''] of
        Inl e \<Rightarrow> Inl e
      | Inr provided \<Rightarrow>
          (case (if provided then validate_book_data data else Inr (True, '''')) of
             Inl e \<Rightarrow> Inl e
           | Inr (is_valid, error_message) \<Rightarrow>
               if \<not> is_valid then Inr (s, validation_failed error_message)
               else (case db_get s bid of
                       None \<Rightarrow> Inr (s, book_not_found)
                     | Some b0 \<Rightarrow>
                         (case set_title data b0 of Inl e \<Rightarrow> Inl e | Inr b1 \<Rightarrow>
                         (case set_author data b1 of Inl e \<Rightarrow> Inl e | Inr b2 \<Rightarrow>
                         (case set_available data b2 of Inl e \<Rightarrow> Inl e | Inr b3 \<Rightarrow>
                            Inr (db_update s b3,
                                 (JObj [(''message'', JStr ''Book updated successfully''),
                                        (''book'', book_to_dict b3)], 200))))))))"

definition delete_book :: "nat \<Rightarrow> store \<Rightarrow> store \<times> response" where
  "delete_book bid s =
     (case db_get s bid of
        None \<Rightarrow> (s, book_not_found)
      | Some b \<Rightarrow> (db_delete s b, (JObj [(''message'', JStr ''Book deleted successfully'')], 200)))"

definition member_required :: response where
  "member_required =
     (JObj [(''error'', JStr ''Validation failed''),
            (''message'', JStr ''Name and Email are required'')], 400)"

definition create_member :: "json \<Rightarrow> store \<Rightarrow> py_error + (store \<times> response)" where
  "create_member data s =
     (if \<not> truthy data then Inr (s, member_required)
      else (case py_in ''name'' data of Inl e \<Rightarrow> Inl e | Inr has_name \<Rightarrow>
           if \<not> has_name then Inr (s, member_required)
           else (case py_in ''email'' data of Inl e \<Rightarrow> Inl e | Inr has_email \<Rightarrow>
                if \<not> has_email then Inr (s, member_required)
                else (case py_getitem data ''name'' of Inl e \<Rightarrow> Inl e | Inr n \<Rightarrow>
                     (case py_getitem data ''email'' of Inl e \<Rightarrow> Inl e | Inr em \<Rightarrow>
                        (let new_member = \<lparr>member_id = fresh_id (map member_id (members s)),
                                           member_name = n, member_email = em\<rparr>
                         in Inr (db_add_member s new_member,
                                 (JObj [(''message'', JStr ''Member created successfully''),
                                        (''member'', member_to_dict new_member)], 201))))))))"

subsection \<open>Search\<close>

text \<open>
  The SQL operator LIKE of SQLite: in the pattern, a percent sign matches any run of
  characters and an underscore any one character; no escape character is set.
\<close>

fun like :: "string \<Rightarrow> string \<Rightarrow> bool" where
  "like [] s = (s = [])"
| "like (p # ps) [] = (p = CHR ''%'' \<and> like ps [])"
| "like (p # ps) (c # cs) =
     (if p = CHR ''%'' then like ps (c # cs) \<or> like (p # ps) cs
      else (p = CHR ''_'' \<or> p = c) \<and> like ps cs)"

text \<open>
  \<^verbatim>\<open>column.ilike(pattern)\<close> on SQLite is \<^verbatim>\<open>lower(column) LIKE lower(pattern)\<close>,
  and \<^verbatim>\<open>lower\<close> folds the letters A to Z only.
\<close>

definition ascii_lower :: "char \<Rightarrow> char" where
  "ascii_lower c =
     (case map_of (zip ''ABCDEFGHIJKLMNOPQRSTUVWXYZ'' ''abcdefghijklmnopqrstuvwxyz'') c of
        None \<Rightarrow> c
      | Some l \<Rightarrow> l)"

definition ilike :: "string \<Rightarrow> string \<Rightarrow> bool" where
  "ilike column pattern = like (map ascii_lower pattern) (map ascii_lower column)"

text \<open>\<^verbatim>\<open>request.args.get(key, '')\<close>: the parameter, or the default when absent.\<close>

fun arg_or :: "string option \<Rightarrow> string \<Rightarrow> string" where
  "arg_or None d = d"
| "arg_or (Some v) d = v"

definition search_filter :: "string \<Rightarrow> string \<Rightarrow> book \<Rightarrow> bool" where
  "search_filter t a b =
     ((t = [] \<or> ilike (book_title b) (''%'' @ t @ ''%'')) \<and>
      (a = [] \<or> ilike (book_author b) (''%'' @ a @ ''%'')))"

definition search_books :: "string option \<Rightarrow> string option \<Rightarrow> store \<Rightarrow> response" where
  "search_books title_arg author_arg s =
     (let t = strip (arg_or title_arg []); a = strip (arg_or author_arg [])
      in if t = [] \<and> a = [] then
           (JObj [(''error'', JStr ''Bad request''),
                  (''message'', JStr ''At least one search parameter (title or author) is required'')], 400)
         else
           (let found = filter (search_filter t a) (books s)
            in (JObj [(''count'', JInt (int (length found))),
                      (''books'', JArr (map book_to_dict found))], 200)))"

section \<open>Properties\<close>

subsection \<open>The store\<close>

lemma fresh_id_greater: "i \<in> set ids \<Longrightarrow> i < fresh_id ids"
proof -
  assume "i \<in> set ids"
  then have "i \<le> Max (set (0 # ids))" by simp
  then show ?thesis by (simp add: fresh_id_def Max.set_eq_fold [symmetric] del: set_simps)
qed

lemma find_append_cases:
  "find P (xs @ ys) = (case find P xs of None \<Rightarrow> find P ys | Some x \<Rightarrow> Some x)"
  by (induction xs) auto

lemma db_get_fresh_None: "db_get s (fresh_id (map book_id (books s))) = None"
proof -
  have "book_id b \<noteq> fresh_id (map book_id (books s))" if "b \<in> set (books s)" for b
    using fresh_id_greater [of "book_id b" "map book_id (books s)"] that by auto
  then show ?thesis by (auto simp: db_get_def find_None_iff)
qed

lemma db_get_add_book:
  "db_get (db_add_book s nb) i =
     (case db_get s i of None \<Rightarrow> if book_id nb = i then Some nb else None | Some b \<Rightarrow> Some b)"
  by (auto simp: db_get_def db_add_book_def find_append_cases split: option.splits)

lemma find_map_update:
  "find (\<lambda>b. book_id b = i) (map (\<lambda>b. if book_id b = book_id b' then b' else b) xs) =
     (if i = book_id b' then (case find (\<lambda>b. book_id b = i) xs of None \<Rightarrow> None | Some x \<Rightarrow> Some b')
      else find (\<lambda>b. book_id b = i) xs)"
  by (induction xs) auto

lemma db_get_db_update:
  "db_get (db_update s b') i =
     (if i = book_id b' then (case db_get s i of None \<Rightarrow> None | Some x \<Rightarrow> Some b') else db_get s i)"
  by (simp add: db_get_def db_update_def find_map_update)

lemma find_filter_delete:
  "find (\<lambda>b. book_id b = i) (filter (\<lambda>b. book_id b \<noteq> j) xs) =
     (if i = j then None else find (\<lambda>b. book_id b = i) xs)"
  by (induction xs) auto

lemma db_get_db_delete:
  "db_get (db_delete s b') i = (if i = book_id b' then None else db_get s i)"
  by (simp add: db_get_def db_delete_def find_filter_delete)

lemma db_get_id: "db_get s i = Some b \<Longrightarrow> book_id b = i"
  by (auto simp: db_get_def find_Some_iff)

lemma distinct_add_book:
  "distinct (map book_id (books s)) \<Longrightarrow> book_id nb = fresh_id (map book_id (books s)) \<Longrightarrow>
   distinct (map book_id (books (db_add_book s nb)))"
  using fresh_id_greater [of "book_id nb" "map book_id (books s)"]
  by (auto simp: db_add_book_def)

lemma map_id_db_update:
  "map book_id (books (db_update s b')) = map book_id (books s)"
  by (simp add: db_update_def comp_def cong: map_cong)

lemma distinct_db_delete:
  "distinct (map book_id (books s)) \<Longrightarrow> distinct (map book_id (books (db_delete s b')))"
  by (simp add: db_delete_def distinct_map_filter)
subsection \<open>validate_book_data on a null or object payload\<close>

lemma validate_book_data_null: "validate_book_data JNull = Inr (False, ''No data provided'')"
  by (simp add: validate_book_data_def)

lemma validate_book_data_obj:
  "validate_book_data (JObj kvs) =
     (if kvs = [] then Inr (False, ''No data provided'')
      else case map_of kvs ''title'' of
             None \<Rightarrow> Inr (False, ''Missing required field: title'')
           | Some (JStr t) \<Rightarrow>
               if strip t = [] then Inr (False, ''title cannot be empty'')
               else (case map_of kvs ''author'' of
                       None \<Rightarrow> Inr (False, ''Missing required field: author'')
                     | Some (JStr a) \<Rightarrow>
                         if strip a = [] then Inr (False, ''author cannot be empty'')
                         else Inr (True, '''')
                     | Some _ \<Rightarrow> Inr (False, ''author must be a string''))
           | Some _ \<Rightarrow> Inr (False, ''title must be a string''))"
  by (simp add: validate_book_data_def split: option.splits json.splits)

text \<open>
  On a payload that is neither null nor an object the validator can raise: the number 5
  supports no membership test, and a list or string that contains the field name supports
  no string subscript.
\<close>

lemma validate_book_data_raises_on_non_object:
  "validate_book_data (JInt 5) = Inl TypeError"
  "validate_book_data (JArr [JStr ''title'']) = Inl TypeError"
  "validate_book_data (JStr ''my title'') = Inl TypeError"
  by (simp_all add: validate_book_data_def sublist_Cons_right)

subsection \<open>Creating a book\<close>









subsection \<open>Creating a member\<close>












subsection \<open>Deleting a book\<close>

text \<open>
  C9. Deleting an id that no row has answers 404 and returns the store as it was.
  Deleting an id that a row has answers 200 and removes the row, so that deleting the
  same id again answers 404 and changes nothing.
\<close>

theorem delete_book_unknown_id_and_twice:
  "(db_get s bid = None \<longrightarrow> delete_book bid s = (s, book_not_found)) \<and>
   (\<forall>b. db_get s bid = Some b \<longrightarrow>
      (\<exists>s'. delete_book bid s = (s', JObj [(''message'', JStr ''Book deleted successfully'')], 200) \<and>
            books s' = filter (\<lambda>x. book_id x \<noteq> bid) (books s) \<and>
            members s' = members s \<and>
            db_get s' bid = None \<and>
            delete_book bid s' = (s', book_not_found))) \<and>
   snd book_not_found = 404"
proof (intro conjI allI impI)
  show "delete_book bid s = (s, book_not_found)" if "db_get s bid = None"
    using that by (simp add: delete_book_def)
next
  fix b assume b: "db_get s bid = Some b"
  then have id: "book_id b = bid" by (rule db_get_id)
  have gone: "db_get (db_delete s b) bid = None"
    by (simp add: db_get_db_delete id)
  show "\<exists>s'. delete_book bid s = (s', JObj [(''message'', JStr ''Book deleted successfully'')], 200) \<and>
            books s' = filter (\<lambda>x. book_id x \<noteq> bid) (books s) \<and>
            members s' = members s \<and>
            db_get s' bid = None \<and>
            delete_book bid s' = (s', book_not_found)"
  proof (intro exI [of _ "db_delete s b"] conjI)
    show "delete_book bid s = (db_delete s b, JObj [(''message'', JStr ''Book deleted successfully'')], 200)"
      using b by (simp add: delete_book_def)
    show "books (db_delete s b) = filter (\<lambda>x. book_id x \<noteq> bid) (books s)"
      by (simp add: db_delete_def id)
    show "members (db_delete s b) = members s"
      by (simp add: db_delete_def)
    show "db_get (db_delete s b) bid = None" by (rule gone)
    show "delete_book bid (db_delete s b) = (db_delete s b, book_not_found)"
      using gone by (simp add: delete_book_def)
  qed
next
  show "snd book_not_found = 404" by (simp add: book_not_found_def)
qed

theorem delete_book_unknown_id_and_twice_witness:
  "delete_book 99999 \<lparr>books = [\<lparr>book_id = 1, book_title = ''Dune'', book_author = ''Frank Herbert'',
                                 book_available = JBool True\<rparr>], members = []\<rparr> =
     (\<lparr>books = [\<lparr>book_id = 1, book_title = ''Dune'', book_author = ''Frank Herbert'',
                 book_available = JBool True\<rparr>], members = []\<rparr>, book_not_found)
   \<and> delete_book 1 \<lparr>books = [\<lparr>book_id = 1, book_title = ''Dune'', book_author = ''Frank Herbert'',
                             book_available = JBool True\<rparr>], members = []\<rparr> =
     (\<lparr>books = [], members = []\<rparr>, JObj [(''message'', JStr ''Book deleted successfully'')], 200)
   \<and> delete_book 1 \<lparr>books = [], members = []\<rparr> = (\<lparr>books = [], members = []\<rparr>, book_not_found)"
  using delete_book_unknown_id_and_twice
    [of "\<lparr>books = [\<lparr>book_id = 1, book_title = ''Dune'', book_author = ''Frank Herbert'',
                    book_available = JBool True\<rparr>], members = []\<rparr>" 99999]
    delete_book_unknown_id_and_twice
    [of "\<lparr>books = [\<lparr>book_id = 1, book_title = ''Dune'', book_author = ''Frank Herbert'',
                    book_available = JBool True\<rparr>], members = []\<rparr>" 1]
  by (auto simp: db_get_def delete_book_def db_delete_def)

subsection \<open>Updating a book\<close>

lemma set_title_frame:
  assumes "set_title data b = Inr b'"
  shows "book_id b' = book_id b" "book_author b' = book_author b"
    "book_available b' = book_available b" "py_in ''title'' data \<noteq> Inr True \<Longrightarrow> b' = b"
  using assms by (auto simp: set_title_def split: sum.splits if_splits)

lemma set_author_frame:
  assumes "set_author data b = Inr b'"
  shows "book_id b' = book_id b" "book_title b' = book_title b"
    "book_available b' = book_available b" "py_in ''author'' data \<noteq> Inr True \<Longrightarrow> b' = b"
  using assms by (auto simp: set_author_def split: sum.splits if_splits)

lemma set_available_frame:
  assumes "set_available data b = Inr b'"
  shows "book_id b' = book_id b" "book_title b' = book_title b"
    "book_author b' = book_author b" "py_in ''available'' data \<noteq> Inr True \<Longrightarrow> b' = b"
  using assms by (auto simp: set_available_def split: sum.splits if_splits)

text \<open>What a successful or refused update does to the store, whatever the payload.\<close>

lemma update_book_cases:
  assumes "update_book bid data s = Inr (s', r)"
  shows "s' = s \<or>
         (\<exists>b0 b1 b2 b3. db_get s bid = Some b0 \<and> set_title data b0 = Inr b1 \<and>
            set_author data b1 = Inr b2 \<and> set_available data b2 = Inr b3 \<and> s' = db_update s b3)"
proof (cases "any_in data [''title'', ''author'']")
  case (Inl e)
  then show ?thesis using assms by (simp add: update_book_def)
next
  case (Inr provided)
  show ?thesis
  proof (cases "if provided then validate_book_data data else Inr (True, '''')")
    case (Inl e)
    then show ?thesis using assms Inr by (simp add: update_book_def)
  next
    case v: (Inr res)
    obtain is_valid error_message where res: "res = (is_valid, error_message)" by (cases res)
    show ?thesis
    proof (cases is_valid)
      case False
      then show ?thesis using assms Inr v res by (simp add: update_book_def)
    next
      case True
      show ?thesis
      proof (cases "db_get s bid")
        case None
        then show ?thesis using assms Inr v res True by (simp add: update_book_def)
      next
        case (Some b0)
        then show ?thesis using assms Inr v res True
          by (simp add: update_book_def split: sum.splits)
      qed
    qed
  qed
qed

lemma assignments_frame:
  assumes "set_title data b0 = Inr b1" "set_author data b1 = Inr b2"
    "set_available data b2 = Inr b3"
  shows "book_id b3 = book_id b0"
    and "py_in ''title'' data \<noteq> Inr True \<Longrightarrow> book_title b3 = book_title b0"
    and "py_in ''author'' data \<noteq> Inr True \<Longrightarrow> book_author b3 = book_author b0"
    and "py_in ''available'' data \<noteq> Inr True \<Longrightarrow> book_available b3 = book_available b0"
proof -
  show "book_id b3 = book_id b0"
    using set_title_frame(1) [OF assms(1)] set_author_frame(1) [OF assms(2)]
      set_available_frame(1) [OF assms(3)] by simp
  show "book_title b3 = book_title b0" if "py_in ''title'' data \<noteq> Inr True"
    using set_title_frame(4) [OF assms(1) that] set_author_frame(2) [OF assms(2)]
      set_available_frame(2) [OF assms(3)] by simp
  show "book_author b3 = book_author b0" if "py_in ''author'' data \<noteq> Inr True"
    using set_title_frame(2) [OF assms(1)] set_author_frame(4) [OF assms(2) that]
      set_available_frame(3) [OF assms(3)] by simp
  show "book_available b3 = book_available b0" if "py_in ''available'' data \<noteq> Inr True"
    using set_title_frame(3) [OF assms(1)] set_author_frame(3) [OF assms(2)]
      set_available_frame(4) [OF assms(3) that] by simp
qed

lemma update_book_frame:
  assumes "update_book bid data s = Inr (s', r)"
  shows "members s' = members s"
    and "db_get s i = None \<Longrightarrow> db_get s' i = None"
    and "db_get s i = Some b \<Longrightarrow>
           \<exists>b'. db_get s' i = Some b' \<and> book_id b' = book_id b \<and>
                (i \<noteq> bid \<longrightarrow> b' = b) \<and>
                (py_in ''title'' data \<noteq> Inr True \<longrightarrow> book_title b' = book_title b) \<and>
                (py_in ''author'' data \<noteq> Inr True \<longrightarrow> book_author b' = book_author b) \<and>
                (py_in ''available'' data \<noteq> Inr True \<longrightarrow> book_available b' = book_available b)"
proof -
  from update_book_cases [OF assms]
  consider (same) "s' = s"
    | (changed) b0 b1 b2 b3 where "db_get s bid = Some b0" "set_title data b0 = Inr b1"
        "set_author data b1 = Inr b2" "set_available data b2 = Inr b3" "s' = db_update s b3"
    by blast
  note cases = this
  show "members s' = members s"
    using cases by cases (simp_all add: db_update_def)
  show "db_get s' i = None" if none: "db_get s i = None"
    using cases
  proof cases
    case same
    then show ?thesis using none by simp
  next
    case (changed b0 b1 b2 b3)
    have "book_id b3 = bid"
      using assignments_frame(1) [OF changed(2-4)] db_get_id [OF changed(1)] by simp
    then show ?thesis using none changed(1,5) by (auto simp: db_get_db_update)
  qed
  show "\<exists>b'. db_get s' i = Some b' \<and> book_id b' = book_id b \<and>
                (i \<noteq> bid \<longrightarrow> b' = b) \<and>
                (py_in ''title'' data \<noteq> Inr True \<longrightarrow> book_title b' = book_title b) \<and>
                (py_in ''author'' data \<noteq> Inr True \<longrightarrow> book_author b' = book_author b) \<and>
                (py_in ''available'' data \<noteq> Inr True \<longrightarrow> book_available b' = book_available b)"
    if b: "db_get s i = Some b"
    using cases
  proof cases
    case same
    then show ?thesis using b by simp
  next
    case (changed b0 b1 b2 b3)
    have id3: "book_id b3 = bid"
      using assignments_frame(1) [OF changed(2-4)] db_get_id [OF changed(1)] by simp
    show ?thesis
    proof (cases "i = bid")
      case False
      have "db_get s' i = Some b"
        using False b id3 changed(5) by (simp add: db_get_db_update)
      then show ?thesis using False by simp
    next
      case True
      then have eq: "b0 = b" using changed(1) b by simp
      have get: "db_get s' i = Some b3"
        using True changed(1,5) id3 by (simp add: db_get_db_update)
      have "book_id b3 = book_id b"
        using assignments_frame(1) [OF changed(2-4)] eq by simp
      moreover have "py_in ''title'' data \<noteq> Inr True \<longrightarrow> book_title b3 = book_title b"
        using assignments_frame(2) [OF changed(2-4)] eq by simp
      moreover have "py_in ''author'' data \<noteq> Inr True \<longrightarrow> book_author b3 = book_author b"
        using assignments_frame(3) [OF changed(2-4)] eq by simp
      moreover have "py_in ''available'' data \<noteq> Inr True \<longrightarrow> book_available b3 = book_available b"
        using assignments_frame(4) [OF changed(2-4)] eq by simp
      ultimately show ?thesis using get True by simp
    qed
  qed
qed

lemma update_book_available_only:
  assumes "db_get s bid = Some b"
  shows "update_book bid (JObj [(''available'', v)]) s =
           Inr (db_update s (b\<lparr>book_available := JBool (truthy v)\<rparr>),
                JObj [(''message'', JStr ''Book updated successfully''),
                      (''book'', book_to_dict (b\<lparr>book_available := JBool (truthy v)\<rparr>))], 200)"
  using assms
  by (simp add: update_book_def set_title_def set_author_def set_available_def)

text \<open>
  C8. For a book that exists, the body \<^verbatim>\<open>{available: false}\<close> is answered with 200
  and the book as it was except for available, which is false; this is also what a
  later lookup of the id returns. In general, after any update request that returns a
  response, every book of the store is still there under its id, a book with another id
  is as it was, and a field of the addressed book whose key is not in the body is as it
  was; the members are untouched.
\<close>

theorem update_book_changes_only_given_fields:
  "(\<forall>b. db_get s bid = Some b \<longrightarrow>
      (\<exists>s'. update_book bid (JObj [(''available'', JBool False)]) s =
              Inr (s', JObj [(''message'', JStr ''Book updated successfully''),
                             (''book'', book_to_dict (b\<lparr>book_available := JBool False\<rparr>))], 200) \<and>
            db_get s' bid = Some (b\<lparr>book_available := JBool False\<rparr>))) \<and>
   (\<forall>s' r. update_book bid data s = Inr (s', r) \<longrightarrow>
      members s' = members s \<and>
      (\<forall>i. case db_get s i of
             None \<Rightarrow> db_get s' i = None
           | Some b \<Rightarrow>
               (\<exists>b'. db_get s' i = Some b' \<and> book_id b' = book_id b \<and>
                  (i \<noteq> bid \<longrightarrow> b' = b) \<and>
                  (py_in ''title'' data \<noteq> Inr True \<longrightarrow> book_title b' = book_title b) \<and>
                  (py_in ''author'' data \<noteq> Inr True \<longrightarrow> book_author b' = book_author b) \<and>
                  (py_in ''available'' data \<noteq> Inr True \<longrightarrow> book_available b' = book_available b))))"
proof (intro conjI allI impI)
  fix b assume b: "db_get s bid = Some b"
  have "db_get (db_update s (b\<lparr>book_available := JBool False\<rparr>)) bid = Some (b\<lparr>book_available := JBool False\<rparr>)"
    using b db_get_id [OF b] by (simp add: db_get_db_update)
  then show "\<exists>s'. update_book bid (JObj [(''available'', JBool False)]) s =
              Inr (s', JObj [(''message'', JStr ''Book updated successfully''),
                             (''book'', book_to_dict (b\<lparr>book_available := JBool False\<rparr>))], 200) \<and>
            db_get s' bid = Some (b\<lparr>book_available := JBool False\<rparr>)"
    using update_book_available_only [OF b, of "JBool False"] by simp
next
  fix s' r assume u: "update_book bid data s = Inr (s', r)"
  show "members s' = members s" by (rule update_book_frame(1) [OF u])
next
  fix s' r i assume u: "update_book bid data s = Inr (s', r)"
  show "case db_get s i of
             None \<Rightarrow> db_get s' i = None
           | Some b \<Rightarrow>
               (\<exists>b'. db_get s' i = Some b' \<and> book_id b' = book_id b \<and>
                  (i \<noteq> bid \<longrightarrow> b' = b) \<and>
                  (py_in ''title'' data \<noteq> Inr True \<longrightarrow> book_title b' = book_title b) \<and>
                  (py_in ''author'' data \<noteq> Inr True \<longrightarrow> book_author b' = book_author b) \<and>
                  (py_in ''available'' data \<noteq> Inr True \<longrightarrow> book_available b' = book_available b))"
    using update_book_frame(2,3) [OF u, of i] by (cases "db_get s i") auto
qed

theorem update_book_changes_only_given_fields_witness:
  "update_book 1 (JObj [(''available'', JBool False)])
     \<lparr>books = [\<lparr>book_id = 1, book_title = ''Dune'', book_author = ''Frank Herbert'',
                book_available = JBool True\<rparr>], members = []\<rparr> =
   Inr (\<lparr>books = [\<lparr>book_id = 1, book_title = ''Dune'', book_author = ''Frank Herbert'',
                    book_available = JBool False\<rparr>], members = []\<rparr>,
        JObj [(''message'', JStr ''Book updated successfully''),
              (''book'', JObj [(''id'', JInt 1), (''title'', JStr ''Dune''),
                               (''author'', JStr ''Frank Herbert''), (''available'', JBool False)])],
        200)"
  using update_book_changes_only_given_fields
    [of "\<lparr>books = [\<lparr>book_id = 1, book_title = ''Dune'', book_author = ''Frank Herbert'',
                    book_available = JBool True\<rparr>], members = []\<rparr>" 1
        "JObj [(''available'', JBool False)]"]
  by (simp add: db_get_def db_update_def book_to_dict_def update_book_def set_title_def
        set_author_def set_available_def)

subsection \<open>Trimming\<close>

lemma strip_decompose:
  "\<exists>l r. s = l @ strip s @ r \<and> list_all py_isspace l \<and> list_all py_isspace r"
proof -
  let ?l = "takeWhile py_isspace s"
  let ?m = "dropWhile py_isspace s"
  let ?r = "rev (takeWhile py_isspace (rev ?m))"
  have "rev ?m = takeWhile py_isspace (rev ?m) @ dropWhile py_isspace (rev ?m)" by simp
  then have "?m = rev (dropWhile py_isspace (rev ?m)) @ ?r"
    by (metis rev_append rev_rev_ident)
  then have "s = ?l @ strip s @ ?r"
    unfolding strip_def by (metis takeWhile_dropWhile_id)
  moreover have "list_all py_isspace ?l"
    by (simp add: list_all_iff) (meson set_takeWhileD)
  moreover have "list_all py_isspace ?r"
    by (simp add: list_all_iff) (meson set_takeWhileD)
  ultimately show ?thesis by blast
qed

lemma strip_no_outer_space:
  assumes "strip s \<noteq> []"
  shows "\<not> py_isspace (hd (strip s))" and "\<not> py_isspace (last (strip s))"
proof -
  let ?m = "dropWhile py_isspace s"
  let ?d = "dropWhile py_isspace (rev ?m)"
  have d: "?d \<noteq> []" using assms by (simp add: strip_def)
  then have "\<not> py_isspace (hd ?d)" by (rule hd_dropWhile)
  then show "\<not> py_isspace (last (strip s))"
    using d by (simp add: strip_def last_rev)
  have m: "?m \<noteq> []"
  proof
    assume e: "?m = []"
    have "?d = []" unfolding e by simp
    with d show False by simp
  qed
  then have hm: "\<not> py_isspace (hd ?m)" by (rule hd_dropWhile)
  have "?m = rev ?d @ rev (takeWhile py_isspace (rev ?m))"
    by (metis rev_append rev_rev_ident takeWhile_dropWhile_id)
  then have "hd ?m = hd (rev ?d)" using d by (metis hd_append2 rev_is_Nil_conv)
  then show "\<not> py_isspace (hd (strip s))" using hm by (simp add: strip_def)
qed

subsection \<open>What update_book does on an object payload that passes validation\<close>

lemma update_book_obj_no_text:
  assumes "db_get s bid = Some b" "map_of kvs ''title'' = None" "map_of kvs ''author'' = None"
  shows "update_book bid (JObj kvs) s =
           (case map_of kvs ''available'' of
              None \<Rightarrow>
                Inr (db_update s b,
                     JObj [(''message'', JStr ''Book updated successfully''),
                           (''book'', book_to_dict b)], 200)
            | Some v \<Rightarrow>
                Inr (db_update s (b\<lparr>book_available := JBool (truthy v)\<rparr>),
                     JObj [(''message'', JStr ''Book updated successfully''),
                           (''book'', book_to_dict (b\<lparr>book_available := JBool (truthy v)\<rparr>))], 200))"
  using assms
  by (simp add: update_book_def set_title_def set_author_def set_available_def
        split: option.splits)

lemma update_book_obj_text:
  assumes "db_get s bid = Some b"
    "map_of kvs ''title'' = Some (JStr t)" "strip t \<noteq> []"
    "map_of kvs ''author'' = Some (JStr a)" "strip a \<noteq> []"
  shows "update_book bid (JObj kvs) s =
           (case map_of kvs ''available'' of
              None \<Rightarrow>
                Inr (db_update s (b\<lparr>book_title := strip t, book_author := strip a\<rparr>),
                     JObj [(''message'', JStr ''Book updated successfully''),
                           (''book'', book_to_dict (b\<lparr>book_title := strip t, book_author := strip a\<rparr>))],
                     200)
            | Some v \<Rightarrow>
                Inr (db_update s (b\<lparr>book_title := strip t, book_author := strip a,
                                    book_available := JBool (truthy v)\<rparr>),
                     JObj [(''message'', JStr ''Book updated successfully''),
                           (''book'', book_to_dict (b\<lparr>book_title := strip t, book_author := strip a,
                                                      book_available := JBool (truthy v)\<rparr>))],
                     200))"
proof -
  have "kvs \<noteq> []" using assms(2) by auto
  then have "validate_book_data (JObj kvs) = Inr (True, '''')"
    using assms by (simp add: validate_book_data_obj)
  then show ?thesis
    using assms
    by (simp add: update_book_def set_title_def set_author_def set_available_def
          split: option.splits)
qed

lemma db_get_db_update_same:
  "db_get s bid = Some b \<Longrightarrow> book_id b' = book_id b \<Longrightarrow> db_get (db_update s b') bid = Some b'"
  using db_get_id [of s bid b] by (simp add: db_get_db_update)
text \<open>
  C5. When create_book accepts an object payload, the row it appends holds the trimmed
  title and the trimmed author, the response shows that row, and a lookup of the new id
  returns it. When update_book is given title and author for a book that exists, the row
  holds the trimmed title and the trimmed author afterwards, the response shows that row,
  and a lookup of the id returns it.
\<close>

theorem create_and_update_store_trimmed_text:
  assumes "map_of kvs ''title'' = Some (JStr t)" "strip t \<noteq> []"
    and "map_of kvs ''author'' = Some (JStr a)" "strip a \<noteq> []"
  shows "(\<exists>nb. create_book (JObj kvs) s =
                 Inr (db_add_book s nb,
                      JObj [(''message'', JStr ''Book created successfully''),
                            (''book'', book_to_dict nb)], 201) \<and>
               book_title nb = strip t \<and> book_author nb = strip a \<and>
               db_get (db_add_book s nb) (book_id nb) = Some nb) \<and>
         (\<forall>b. db_get s bid = Some b \<longrightarrow>
            (\<exists>b'. update_book bid (JObj kvs) s =
                    Inr (db_update s b',
                         JObj [(''message'', JStr ''Book updated successfully''),
                               (''book'', book_to_dict b')], 200) \<and>
                  book_title b' = strip t \<and> book_author b' = strip a \<and>
                  db_get (db_update s b') bid = Some b'))"
proof (intro conjI allI impI)
  have ne: "kvs \<noteq> []" using assms(1) by auto
  have valid: "validate_book_data (JObj kvs) = Inr (True, '''')"
    using assms ne by (simp add: validate_book_data_obj)
  define av where "av = (case map_of kvs ''available'' of None \<Rightarrow> JBool True | Some v \<Rightarrow> v)"
  define nb where "nb = \<lparr>book_id = fresh_id (map book_id (books s)), book_title = strip t,
                         book_author = strip a, book_available = av\<rparr>"
  have "create_book (JObj kvs) s =
          Inr (db_add_book s nb,
               JObj [(''message'', JStr ''Book created successfully''), (''book'', book_to_dict nb)], 201)"
    using assms valid by (simp add: create_book_def nb_def av_def Let_def split: option.splits)
  moreover have "db_get (db_add_book s nb) (book_id nb) = Some nb"
    using db_get_fresh_None [of s] by (simp add: db_get_add_book nb_def)
  moreover have "book_title nb = strip t" "book_author nb = strip a"
    by (simp_all add: nb_def)
  ultimately show "\<exists>nb. create_book (JObj kvs) s =
                 Inr (db_add_book s nb,
                      JObj [(''message'', JStr ''Book created successfully''),
                            (''book'', book_to_dict nb)], 201) \<and>
               book_title nb = strip t \<and> book_author nb = strip a \<and>
               db_get (db_add_book s nb) (book_id nb) = Some nb"
    by blast
next
  fix b assume b: "db_get s bid = Some b"
  define b' where "b' = (case map_of kvs ''available'' of
                           None \<Rightarrow> b\<lparr>book_title := strip t, book_author := strip a\<rparr>
                         | Some v \<Rightarrow> b\<lparr>book_title := strip t, book_author := strip a,
                                         book_available := JBool (truthy v)\<rparr>)"
  have "update_book bid (JObj kvs) s =
          Inr (db_update s b',
               JObj [(''message'', JStr ''Book updated successfully''), (''book'', book_to_dict b')], 200)"
    using update_book_obj_text [OF b assms] by (simp add: b'_def split: option.splits)
  moreover have "book_id b' = book_id b" "book_title b' = strip t" "book_author b' = strip a"
    by (simp_all add: b'_def split: option.splits)
  moreover from this(1) have "db_get (db_update s b') bid = Some b'"
    by (rule db_get_db_update_same [OF b])
  ultimately show "\<exists>b'. update_book bid (JObj kvs) s =
                    Inr (db_update s b',
                         JObj [(''message'', JStr ''Book updated successfully''),
                               (''book'', book_to_dict b')], 200) \<and>
                  book_title b' = strip t \<and> book_author b' = strip a \<and>
                  db_get (db_update s b') bid = Some b'"
    by blast
qed

theorem create_and_update_store_trimmed_text_witness:
  "strip '' Dune '' = ''Dune'' \<and> strip ''Frank Herbert '' = ''Frank Herbert'' \<and>
   create_book (JObj [(''title'', JStr '' Dune ''), (''author'', JStr ''Frank Herbert '')])
     \<lparr>books = [], members = []\<rparr> =
   Inr (\<lparr>books = [\<lparr>book_id = 1, book_title = ''Dune'', book_author = ''Frank Herbert'',
                    book_available = JBool True\<rparr>], members = []\<rparr>,
        JObj [(''message'', JStr ''Book created successfully''),
              (''book'', JObj [(''id'', JInt 1), (''title'', JStr ''Dune''),
                               (''author'', JStr ''Frank Herbert''), (''available'', JBool True)])],
        201) \<and>
   update_book 1 (JObj [(''title'', JStr '' Dune ''), (''author'', JStr ''Frank Herbert '')])
     \<lparr>books = [\<lparr>book_id = 1, book_title = ''x'', book_author = ''y'',
                book_available = JBool False\<rparr>], members = []\<rparr> =
   Inr (\<lparr>books = [\<lparr>book_id = 1, book_title = ''Dune'', book_author = ''Frank Herbert'',
                    book_available = JBool False\<rparr>], members = []\<rparr>,
        JObj [(''message'', JStr ''Book updated successfully''),
              (''book'', JObj [(''id'', JInt 1), (''title'', JStr ''Dune''),
                               (''author'', JStr ''Frank Herbert''), (''available'', JBool False)])],
        200)"
proof -
  have st: "strip '' Dune '' = ''Dune''" "strip ''Frank Herbert '' = ''Frank Herbert''"
    by (simp_all add: strip_def py_isspace_def)
  note inst = create_and_update_store_trimmed_text
    [of "[(''title'', JStr '' Dune ''), (''author'', JStr ''Frank Herbert '')]" "'' Dune ''"
        "''Frank Herbert ''"]
  have h: "map_of [(''title'', JStr '' Dune ''), (''author'', JStr ''Frank Herbert '')] ''title''
             = Some (JStr '' Dune '')"
      "strip '' Dune '' \<noteq> []"
      "map_of [(''title'', JStr '' Dune ''), (''author'', JStr ''Frank Herbert '')] ''author''
             = Some (JStr ''Frank Herbert '')"
      "strip ''Frank Herbert '' \<noteq> []"
    by (simp_all add: st)
  have c: "create_book (JObj [(''title'', JStr '' Dune ''), (''author'', JStr ''Frank Herbert '')])
     \<lparr>books = [], members = []\<rparr> =
   Inr (\<lparr>books = [\<lparr>book_id = 1, book_title = ''Dune'', book_author = ''Frank Herbert'',
                    book_available = JBool True\<rparr>], members = []\<rparr>,
        JObj [(''message'', JStr ''Book created successfully''),
              (''book'', JObj [(''id'', JInt 1), (''title'', JStr ''Dune''),
                               (''author'', JStr ''Frank Herbert''), (''available'', JBool True)])],
        201)"
    using inst [OF h, of "\<lparr>books = [], members = []\<rparr>" 0]
    by (simp add: create_book_def validate_book_data_obj st db_add_book_def fresh_id_def
          book_to_dict_def)
  have u: "update_book 1 (JObj [(''title'', JStr '' Dune ''), (''author'', JStr ''Frank Herbert '')])
     \<lparr>books = [\<lparr>book_id = 1, book_title = ''x'', book_author = ''y'',
                book_available = JBool False\<rparr>], members = []\<rparr> =
   Inr (\<lparr>books = [\<lparr>book_id = 1, book_title = ''Dune'', book_author = ''Frank Herbert'',
                    book_available = JBool False\<rparr>], members = []\<rparr>,
        JObj [(''message'', JStr ''Book updated successfully''),
              (''book'', JObj [(''id'', JInt 1), (''title'', JStr ''Dune''),
                               (''author'', JStr ''Frank Herbert''), (''available'', JBool False)])],
        200)"
    by (simp add: update_book_def validate_book_data_obj st db_update_def db_get_def
          set_title_def set_author_def set_available_def book_to_dict_def)
  show ?thesis using st c u by simp
qed

text \<open>
  C10, as stated, fails: a body with the key available is refused with 400 when it also
  carries a title that is empty, and the stored value stays what it was.
\<close>

theorem update_book_available_counterexample:
  "update_book 1 (JObj [(''available'', JStr ''no''), (''title'', JStr '''')])
     \<lparr>books = [\<lparr>book_id = 1, book_title = ''Dune'', book_author = ''Frank Herbert'',
                book_available = JBool False\<rparr>], members = []\<rparr> =
   Inr (\<lparr>books = [\<lparr>book_id = 1, book_title = ''Dune'', book_author = ''Frank Herbert'',
                    book_available = JBool False\<rparr>], members = []\<rparr>,
        JObj [(''error'', JStr ''Validation failed''), (''message'', JStr ''title cannot be empty'')],
        400) \<and>
   db_get \<lparr>books = [\<lparr>book_id = 1, book_title = ''Dune'', book_author = ''Frank Herbert'',
                     book_available = JBool False\<rparr>], members = []\<rparr> 1 =
     Some \<lparr>book_id = 1, book_title = ''Dune'', book_author = ''Frank Herbert'',
           book_available = JBool False\<rparr> \<and>
   JBool False \<noteq> JBool (truthy (JStr ''no''))"
  by (simp add: update_book_def validate_book_data_obj validation_failed_def db_get_def
        strip_def)

text \<open>
  C10, amended. For a book that exists and an object body with the key available that
  passes the check of title and author (neither key is present, or both are strings that
  are not empty after trimming), update_book answers 200 and the stored available is
  the truth value of the value given, whatever its type.
\<close>

theorem update_book_available_is_truth_value:
  assumes "db_get s bid = Some b" "map_of kvs ''available'' = Some v"
    and "(map_of kvs ''title'' = None \<and> map_of kvs ''author'' = None) \<or>
         (\<exists>t a. map_of kvs ''title'' = Some (JStr t) \<and> strip t \<noteq> [] \<and>
                map_of kvs ''author'' = Some (JStr a) \<and> strip a \<noteq> [])"
  shows "\<exists>b'. update_book bid (JObj kvs) s =
                Inr (db_update s b',
                     JObj [(''message'', JStr ''Book updated successfully''),
                           (''book'', book_to_dict b')], 200) \<and>
              book_available b' = JBool (truthy v) \<and>
              db_get (db_update s b') bid = Some b'"
  using assms(3)
proof (elim disjE conjE exE)
  assume n: "map_of kvs ''title'' = None" "map_of kvs ''author'' = None"
  let ?b = "b\<lparr>book_available := JBool (truthy v)\<rparr>"
  have "update_book bid (JObj kvs) s =
          Inr (db_update s ?b,
               JObj [(''message'', JStr ''Book updated successfully''), (''book'', book_to_dict ?b)], 200)"
    using update_book_obj_no_text [OF assms(1) n] assms(2) by simp
  moreover have "db_get (db_update s ?b) bid = Some ?b"
    by (rule db_get_db_update_same [OF assms(1)]) simp
  ultimately show ?thesis by (intro exI [of _ ?b]) simp
next
  fix t a
  assume p: "map_of kvs ''title'' = Some (JStr t)" "strip t \<noteq> []"
    "map_of kvs ''author'' = Some (JStr a)" "strip a \<noteq> []"
  let ?b = "b\<lparr>book_title := strip t, book_author := strip a, book_available := JBool (truthy v)\<rparr>"
  have "update_book bid (JObj kvs) s =
          Inr (db_update s ?b,
               JObj [(''message'', JStr ''Book updated successfully''), (''book'', book_to_dict ?b)], 200)"
    using update_book_obj_text [OF assms(1) p] assms(2) by simp
  moreover have "db_get (db_update s ?b) bid = Some ?b"
    by (rule db_get_db_update_same [OF assms(1)]) simp
  ultimately show ?thesis by (intro exI [of _ ?b]) simp
qed

theorem update_book_available_is_truth_value_witness:
  "update_book 1 (JObj [(''available'', JStr ''no'')])
     \<lparr>books = [\<lparr>book_id = 1, book_title = ''Dune'', book_author = ''Frank Herbert'',
                book_available = JBool False\<rparr>], members = []\<rparr> =
   Inr (\<lparr>books = [\<lparr>book_id = 1, book_title = ''Dune'', book_author = ''Frank Herbert'',
                    book_available = JBool True\<rparr>], members = []\<rparr>,
        JObj [(''message'', JStr ''Book updated successfully''),
              (''book'', JObj [(''id'', JInt 1), (''title'', JStr ''Dune''),
                               (''author'', JStr ''Frank Herbert''), (''available'', JBool True)])],
        200) \<and>
   truthy (JStr ''no'') \<and> truthy (JInt 1)"
  using update_book_available_is_truth_value
    [of "\<lparr>books = [\<lparr>book_id = 1, book_title = ''Dune'', book_author = ''Frank Herbert'',
                    book_available = JBool False\<rparr>], members = []\<rparr>" 1
        "\<lparr>book_id = 1, book_title = ''Dune'', book_author = ''Frank Herbert'',
          book_available = JBool False\<rparr>"
        "[(''available'', JStr ''no'')]" "JStr ''no''"]
  by (simp add: db_get_def db_update_def book_to_dict_def update_book_def set_title_def
        set_author_def set_available_def)

subsection \<open>LIKE patterns and substrings\<close>

lemma like_percent_only: "like ''%'' s"
  by (induction s) auto

lemma like_literal_then_percent:
  "CHR ''%'' \<notin> set p \<Longrightarrow> CHR ''_'' \<notin> set p \<Longrightarrow> like (p @ ''%'') s = prefix p s"
proof (induction p arbitrary: s)
  case Nil
  then show ?case by (simp add: like_percent_only)
next
  case (Cons x p)
  then show ?case by (cases s) auto
qed

lemma like_percent_first: "like (CHR ''%'' # q) s = (\<exists>t. suffix t s \<and> like q t)"
proof (induction s)
  case Nil
  then show ?case by simp
next
  case (Cons c cs)
  have "like (CHR ''%'' # q) (c # cs) = (like q (c # cs) \<or> like (CHR ''%'' # q) cs)" by simp
  also have "\<dots> = (like q (c # cs) \<or> (\<exists>t. suffix t cs \<and> like q t))"
    using Cons.IH by simp
  also have "\<dots> = (\<exists>t. suffix t (c # cs) \<and> like q t)"
    by (auto simp: suffix_Cons)
  finally show ?case .
qed

lemma like_contains:
  assumes "CHR ''%'' \<notin> set p" "CHR ''_'' \<notin> set p"
  shows "like (''%'' @ p @ ''%'') s = sublist p s"
proof -
  have "like (''%'' @ p @ ''%'') s = (\<exists>t. suffix t s \<and> like (p @ ''%'') t)"
    using like_percent_first [of "p @ ''%''" s] by simp
  also have "\<dots> = (\<exists>t. suffix t s \<and> prefix p t)"
    using assms by (simp add: like_literal_then_percent)
  also have "\<dots> = sublist p s"
    by (simp add: sublist_altdef')
  finally show ?thesis .
qed

lemma ascii_lower_wildcard:
  "ascii_lower c = CHR ''%'' \<longleftrightarrow> c = CHR ''%''"
  "ascii_lower c = CHR ''_'' \<longleftrightarrow> c = CHR ''_''"
  by (auto simp: ascii_lower_def split: if_splits)

lemma ilike_contains:
  assumes "CHR ''%'' \<notin> set p" "CHR ''_'' \<notin> set p"
  shows "ilike column (''%'' @ p @ ''%'') = sublist (map ascii_lower p) (map ascii_lower column)"
proof -
  have "ascii_lower x \<noteq> CHR ''%''" "ascii_lower x \<noteq> CHR ''_''" if "x \<in> set p" for x
    using that assms by (auto simp: ascii_lower_wildcard)
  then have "CHR ''%'' \<notin> set (map ascii_lower p)" "CHR ''_'' \<notin> set (map ascii_lower p)"
    by (metis (no_types, lifting) imageE set_map)+
  from like_contains [OF this, of "map ascii_lower column"]
  have "like (''%'' @ map ascii_lower p @ ''%'') (map ascii_lower column) =
          sublist (map ascii_lower p) (map ascii_lower column)" .
  moreover have "ascii_lower CHR ''%'' = CHR ''%''"
    by (simp add: ascii_lower_wildcard)
  ultimately show ?thesis by (simp add: ilike_def)
qed
subsection \<open>Searching books\<close>

text \<open>
  C7, as stated, fails: the parameter is put into a LIKE pattern as it is, so an
  underscore in it stands for any character. The title parameter \<^verbatim>\<open>d_n\<close> finds the
  book titled Dune, whose title does not contain \<^verbatim>\<open>d_n\<close>.
\<close>

theorem search_books_wildcard_counterexample:
  "search_books (Some ''d_n'') None
     \<lparr>books = [\<lparr>book_id = 1, book_title = ''Dune'', book_author = ''Frank Herbert'',
                book_available = JBool True\<rparr>], members = []\<rparr> =
   (JObj [(''count'', JInt 1),
          (''books'', JArr [JObj [(''id'', JInt 1), (''title'', JStr ''Dune''),
                                  (''author'', JStr ''Frank Herbert''),
                                  (''available'', JBool True)]])], 200) \<and>
   \<not> sublist (map ascii_lower ''d_n'') (map ascii_lower ''Dune'')"
  by (simp add: search_books_def search_filter_def ilike_def ascii_lower_def strip_def
        py_isspace_def book_to_dict_def sublist_Cons_right)

text \<open>
  C7, amended. With \<open>t\<close> and \<open>a\<close> the trimmed title and author parameters (empty
  when absent): search_books answers 400 exactly when both are empty. Otherwise it
  answers 200 with the count and the list of exactly the books whose title matches the
  LIKE pattern made of \<open>t\<close> between two percent signs, when \<open>t\<close> is not empty, and whose
  author matches the one made of \<open>a\<close>, when \<open>a\<close> is not empty, the letters A to Z
  folded to lower case on both sides. When neither parameter contains a percent sign or
  an underscore, these are exactly the books whose title contains \<open>t\<close> and whose author
  contains \<open>a\<close>, as substrings after folding.
\<close>

theorem search_books_matches_like_patterns:
  assumes "t = strip (arg_or title_arg [])" "a = strip (arg_or author_arg [])"
  shows "((snd (search_books title_arg author_arg s) = 400) = (t = [] \<and> a = [])) \<and>
         (\<not> (t = [] \<and> a = []) \<longrightarrow>
            search_books title_arg author_arg s =
              (JObj [(''count'', JInt (int (length
                        (filter (\<lambda>b. (t = [] \<or> ilike (book_title b) (''%'' @ t @ ''%'')) \<and>
                                     (a = [] \<or> ilike (book_author b) (''%'' @ a @ ''%'')))
                           (books s))))),
                     (''books'', JArr (map book_to_dict
                        (filter (\<lambda>b. (t = [] \<or> ilike (book_title b) (''%'' @ t @ ''%'')) \<and>
                                     (a = [] \<or> ilike (book_author b) (''%'' @ a @ ''%'')))
                           (books s))))], 200)) \<and>
         (CHR ''%'' \<notin> set (t @ a) \<and> CHR ''_'' \<notin> set (t @ a) \<longrightarrow>
            filter (\<lambda>b. (t = [] \<or> ilike (book_title b) (''%'' @ t @ ''%'')) \<and>
                        (a = [] \<or> ilike (book_author b) (''%'' @ a @ ''%''))) (books s) =
            filter (\<lambda>b. sublist (map ascii_lower t) (map ascii_lower (book_title b)) \<and>
                        sublist (map ascii_lower a) (map ascii_lower (book_author b))) (books s))"
proof (intro conjI impI)
  show "(snd (search_books title_arg author_arg s) = 400) = (t = [] \<and> a = [])"
    using assms by (simp add: search_books_def Let_def)
next
  assume "\<not> (t = [] \<and> a = [])"
  then show "search_books title_arg author_arg s =
              (JObj [(''count'', JInt (int (length
                        (filter (\<lambda>b. (t = [] \<or> ilike (book_title b) (''%'' @ t @ ''%'')) \<and>
                                     (a = [] \<or> ilike (book_author b) (''%'' @ a @ ''%'')))
                           (books s))))),
                     (''books'', JArr (map book_to_dict
                        (filter (\<lambda>b. (t = [] \<or> ilike (book_title b) (''%'' @ t @ ''%'')) \<and>
                                     (a = [] \<or> ilike (book_author b) (''%'' @ a @ ''%'')))
                           (books s))))], 200)"
    using assms by (simp add: search_books_def Let_def search_filter_def [abs_def])
next
  assume w: "CHR ''%'' \<notin> set (t @ a) \<and> CHR ''_'' \<notin> set (t @ a)"
  have "((t = [] \<or> ilike c (''%'' @ t @ ''%'')) = sublist (map ascii_lower t) (map ascii_lower c))" for c
    using w ilike_contains [of t c] by auto
  moreover
  have "((a = [] \<or> ilike c (''%'' @ a @ ''%'')) = sublist (map ascii_lower a) (map ascii_lower c))" for c
    using w ilike_contains [of a c] by auto
  ultimately
  show "filter (\<lambda>b. (t = [] \<or> ilike (book_title b) (''%'' @ t @ ''%'')) \<and>
                        (a = [] \<or> ilike (book_author b) (''%'' @ a @ ''%''))) (books s) =
            filter (\<lambda>b. sublist (map ascii_lower t) (map ascii_lower (book_title b)) \<and>
                        sublist (map ascii_lower a) (map ascii_lower (book_author b))) (books s)"
    by simp
qed

theorem search_books_matches_like_patterns_witness:
  "search_books (Some '' dun'') None
     \<lparr>books = [\<lparr>book_id = 1, book_title = ''Dune'', book_author = ''Frank Herbert'',
                book_available = JBool True\<rparr>,
               \<lparr>book_id = 2, book_title = ''Emma'', book_author = ''Jane Austen'',
                book_available = JBool True\<rparr>], members = []\<rparr> =
   (JObj [(''count'', JInt 1),
          (''books'', JArr [JObj [(''id'', JInt 1), (''title'', JStr ''Dune''),
                                  (''author'', JStr ''Frank Herbert''),
                                  (''available'', JBool True)]])], 200) \<and>
   snd (search_books None (Some ''  '')
     \<lparr>books = [\<lparr>book_id = 1, book_title = ''Dune'', book_author = ''Frank Herbert'',
                book_available = JBool True\<rparr>,
               \<lparr>book_id = 2, book_title = ''Emma'', book_author = ''Jane Austen'',
                book_available = JBool True\<rparr>], members = []\<rparr>) = 400"
proof -
  have st: "strip '' dun'' = ''dun''" "strip ''  '' = []" "strip [] = []"
    by (simp_all add: strip_def py_isspace_def)
  have low: "map ascii_lower ''dun'' = ''dun''" "map ascii_lower ''Dune'' = ''dune''"
    "map ascii_lower ''Emma'' = ''emma''"
    by (simp_all add: ascii_lower_def)
  have lk: "ilike ''Dune'' ''%dun%''" "\<not> ilike ''Emma'' ''%dun%''"
    by (simp_all add: ilike_def ascii_lower_def)
  show ?thesis
    using search_books_matches_like_patterns
      [of "''dun''" "Some '' dun''" "[]" None
          "\<lparr>books = [\<lparr>book_id = 1, book_title = ''Dune'', book_author = ''Frank Herbert'',
                book_available = JBool True\<rparr>,
               \<lparr>book_id = 2, book_title = ''Emma'', book_author = ''Jane Austen'',
                book_available = JBool True\<rparr>], members = []\<rparr>"]
      search_books_matches_like_patterns
      [of "[]" None "[]" "Some ''  ''"
          "\<lparr>books = [\<lparr>book_id = 1, book_title = ''Dune'', book_author = ''Frank Herbert'',
                book_available = JBool True\<rparr>,
               \<lparr>book_id = 2, book_title = ''Emma'', book_author = ''Jane Austen'',
                book_available = JBool True\<rparr>], members = []\<rparr>"]
    by (simp add: st low lk book_to_dict_def)
qed

subsection \<open>Pagination parameters\<close>

lemma py_int_raises_ValueError_only: "py_int s = Inl e \<Longrightarrow> e = ValueError"
  by (auto simp: py_int_def Let_def split: list.splits if_splits option.splits)

lemma int_or_default_raises_ValueError_only: "int_or_default x d = Inl e \<Longrightarrow> e = ValueError"
  by (cases x) (auto dest: py_int_raises_ValueError_only split: if_splits)

lemma py_int_examples:
  "py_int ''0'' = Inr 0" "py_int ''1'' = Inr 1" "py_int ''100'' = Inr 100"
  "py_int ''101'' = Inr 101" "py_int ''abc'' = Inl ValueError" "py_int '' -7 '' = Inr (- 7)"
  "py_int ''1_0'' = Inr 10" "py_int ''1.5'' = Inl ValueError"
  by (simp_all add: py_int_def int_isspace_def is_digit_def digit_val_def int_max_str_digits_def)

lemma validate_pagination_params_cases:
  "validate_pagination_params page per_page =
     (case int_or_default page 1 of
        Inl e \<Rightarrow> Inr (False, ''Invalid pagination parameters'', [])
      | Inr p \<Rightarrow>
          (case int_or_default per_page 10 of
             Inl e \<Rightarrow> Inr (False, ''Invalid pagination parameters'', [])
           | Inr q \<Rightarrow>
               if p < 1 then Inr (False, ''Page number must be positive'', [])
               else if q < 1 \<or> q > 100 then
                 Inr (False, ''Items per page must be between 1 and 100'', [])
               else Inr (True, '''', [(''page'', p), (''per_page'', q)])))"
proof (cases "int_or_default page 1")
  case (Inl e)
  then show ?thesis
    using int_or_default_raises_ValueError_only [OF Inl]
    by (simp add: validate_pagination_params_def)
next
  case p: (Inr p)
  show ?thesis
  proof (cases "int_or_default per_page 10")
    case (Inl e)
    then show ?thesis
      using int_or_default_raises_ValueError_only [OF Inl] p
      by (simp add: validate_pagination_params_def)
  next
    case (Inr q)
    then show ?thesis using p by (simp add: validate_pagination_params_def)
  qed
qed

text \<open>
  C6. An absent or empty input stands for 1 (page) and 10 (per_page); any other input is
  converted by int(). The validator always returns. It fails exactly when a conversion
  raises ValueError, or the page is below 1, or the page size is below 1 or above 100;
  a failure carries a non-empty message and the empty mapping, a success the empty
  message and the two numbers. With per_page 0 or 101 it fails whatever the page is;
  page 1 with per_page 100 succeeds, and so do two absent inputs, with 1 and 10.
\<close>

theorem validate_pagination_params_defaults_and_range:
  "(\<exists>ok msg params.
      validate_pagination_params page per_page = Inr (ok, msg, params) \<and>
      ((\<not> ok) =
         (int_or_default page 1 = Inl ValueError \<or> int_or_default per_page 10 = Inl ValueError \<or>
          (\<exists>p. int_or_default page 1 = Inr p \<and> p < 1) \<or>
          (\<exists>q. int_or_default per_page 10 = Inr q \<and> (q < 1 \<or> q > 100)))) \<and>
      (\<not> ok \<longrightarrow> msg \<noteq> [] \<and> params = []) \<and>
      (ok \<longrightarrow> msg = [] \<and>
         (\<exists>p q. int_or_default page 1 = Inr p \<and> int_or_default per_page 10 = Inr q \<and>
                params = [(''page'', p), (''per_page'', q)]))) \<and>
   int_or_default None d = Inr d \<and> int_or_default (Some []) d = Inr d \<and>
   (x \<noteq> [] \<longrightarrow> int_or_default (Some x) d = py_int x) \<and>
   (\<exists>msg. msg \<noteq> [] \<and> validate_pagination_params page (Some ''0'') = Inr (False, msg, [])) \<and>
   (\<exists>msg. msg \<noteq> [] \<and> validate_pagination_params page (Some ''101'') = Inr (False, msg, [])) \<and>
   validate_pagination_params (Some ''1'') (Some ''100'') =
     Inr (True, '''', [(''page'', 1), (''per_page'', 100)]) \<and>
   validate_pagination_params None None = Inr (True, '''', [(''page'', 1), (''per_page'', 10)])"
proof (intro conjI)
  show "\<exists>ok msg params.
      validate_pagination_params page per_page = Inr (ok, msg, params) \<and>
      ((\<not> ok) =
         (int_or_default page 1 = Inl ValueError \<or> int_or_default per_page 10 = Inl ValueError \<or>
          (\<exists>p. int_or_default page 1 = Inr p \<and> p < 1) \<or>
          (\<exists>q. int_or_default per_page 10 = Inr q \<and> (q < 1 \<or> q > 100)))) \<and>
      (\<not> ok \<longrightarrow> msg \<noteq> [] \<and> params = []) \<and>
      (ok \<longrightarrow> msg = [] \<and>
         (\<exists>p q. int_or_default page 1 = Inr p \<and> int_or_default per_page 10 = Inr q \<and>
                params = [(''page'', p), (''per_page'', q)]))"
  proof (cases "int_or_default page 1")
    case (Inl e)
    then have "int_or_default page 1 = Inl ValueError"
      using int_or_default_raises_ValueError_only by blast
    then show ?thesis by (auto simp: validate_pagination_params_cases)
  next
    case p: (Inr p)
    show ?thesis
    proof (cases "int_or_default per_page 10")
      case (Inl e)
      then have "int_or_default per_page 10 = Inl ValueError"
        using int_or_default_raises_ValueError_only by blast
      then show ?thesis using p by (auto simp: validate_pagination_params_cases)
    next
      case (Inr q)
      then show ?thesis using p by (auto simp: validate_pagination_params_cases)
    qed
  qed
next
  show "int_or_default None d = Inr d" by simp
  show "int_or_default (Some []) d = Inr d" by simp
  show "x \<noteq> [] \<longrightarrow> int_or_default (Some x) d = py_int x" by simp
  show "\<exists>msg. msg \<noteq> [] \<and> validate_pagination_params page (Some ''0'') = Inr (False, msg, [])"
    by (cases "int_or_default page 1")
       (simp_all add: validate_pagination_params_cases py_int_examples)
  show "\<exists>msg. msg \<noteq> [] \<and> validate_pagination_params page (Some ''101'') = Inr (False, msg, [])"
    by (cases "int_or_default page 1")
       (simp_all add: validate_pagination_params_cases py_int_examples)
  show "validate_pagination_params (Some ''1'') (Some ''100'') =
     Inr (True, '''', [(''page'', 1), (''per_page'', 100)])"
    by (simp add: validate_pagination_params_cases py_int_examples)
  show "validate_pagination_params None None = Inr (True, '''', [(''page'', 1), (''per_page'', 10)])"
    by (simp add: validate_pagination_params_cases)
qed

theorem validate_pagination_params_defaults_and_range_witness:
  "validate_pagination_params (Some ''abc'') (Some ''5'') =
     Inr (False, ''Invalid pagination parameters'', []) \<and>
   validate_pagination_params (Some ''0'') None =
     Inr (False, ''Page number must be positive'', []) \<and>
   validate_pagination_params (Some ''2'') (Some '''') =
     Inr (True, '''', [(''page'', 2), (''per_page'', 10)]) \<and>
   int_or_default (Some ''abc'') 1 = Inl ValueError"
  using validate_pagination_params_defaults_and_range [of "Some ''abc''" "Some ''5''" 1 "''abc''"]
    validate_pagination_params_defaults_and_range [of "Some ''0''" None 1 "''abc''"]
    validate_pagination_params_defaults_and_range [of "Some ''2''" "Some ''''" 1 "''abc''"]
  by (simp add: validate_pagination_params_def py_int_def int_isspace_def is_digit_def
        digit_val_def int_max_str_digits_def)

subsection \<open>int() on a string of decimal digits\<close>

lemma int_digits_all_digits:
  "list_all is_digit s \<Longrightarrow>
   int_digits s acc = Some (foldl (\<lambda>n c. 10 * n + digit_val c) acc s)"
  by (induction s arbitrary: acc) auto

lemma digit_not_space_or_sign:
  "is_digit c \<Longrightarrow> \<not> int_isspace c \<and> c \<noteq> CHR ''-'' \<and> c \<noteq> CHR ''+''"
  by (auto simp: is_digit_def int_isspace_def)

lemma dropWhile_space_digits:
  assumes "list_all is_digit s"
  shows "dropWhile int_isspace s = s"
proof (cases s)
  case Nil
  then show ?thesis by simp
next
  case (Cons c cs)
  then have "\<not> int_isspace c" using assms digit_not_space_or_sign by simp
  then show ?thesis using Cons by simp
qed

text \<open>
  A non-empty string of decimal digits within the digit limit converts to the number it
  denotes.
\<close>

lemma py_int_digit_string:
  assumes "s \<noteq> []" "list_all is_digit s" "length s \<le> int_max_str_digits"
  shows "py_int s = Inr (int (foldl (\<lambda>n c. 10 * n + digit_val c) 0 s))"
proof -
  have "list_all is_digit (rev s)" using assms(2) by (simp add: list_all_iff)
  then have t: "rev (dropWhile int_isspace (rev (dropWhile int_isspace s))) = s"
    using assms(2) by (simp add: dropWhile_space_digits)
  obtain c cs where s: "s = c # cs" using assms(1) by (cases s) auto
  then have c: "is_digit c" "c \<noteq> CHR ''-''" "c \<noteq> CHR ''+''"
    using assms(2) digit_not_space_or_sign by auto
  have f: "filter is_digit s = s" using assms(2) by (simp add: list_all_iff)
  have d: "int_digits (c # cs) 0 = Some (foldl (\<lambda>n c. 10 * n + digit_val c) 0 (c # cs))"
    using int_digits_all_digits [OF assms(2), of 0] s by simp
  show ?thesis
    unfolding py_int_def t
    using c f d assms(3) s by (simp del: int_digits.simps foldl_Cons)
qed

subsection \<open>validate_book_data returns on null and object payloads\<close>

lemma validate_book_data_returns:
  assumes "data = JNull \<or> data = JObj kvs"
  shows "\<exists>ok msg. validate_book_data data = Inr (ok, msg)"
  using assms
  by (auto simp: validate_book_data_null validate_book_data_obj split: option.splits json.splits)
subsection \<open>validate_member_data and the email library\<close>

lemma validate_member_data_null:
  "validate_member_data ve JNull = Inr (False, ''No data provided'')"
  by (simp add: validate_member_data_def)

lemma check_required_name_email_obj:
  "check_required (JObj kvs) [''name'', ''email''] =
     (case map_of kvs ''name'' of
        None \<Rightarrow> Inr (Some (False, ''Missing required field: name''))
      | Some (JStr n) \<Rightarrow>
          if strip n = [] then Inr (Some (False, ''name cannot be empty''))
          else (case map_of kvs ''email'' of
                  None \<Rightarrow> Inr (Some (False, ''Missing required field: email''))
                | Some (JStr em) \<Rightarrow>
                    if strip em = [] then Inr (Some (False, ''email cannot be empty''))
                    else Inr None
                | Some _ \<Rightarrow> Inr (Some (False, ''email must be a string'')))
      | Some _ \<Rightarrow> Inr (Some (False, ''name must be a string'')))"
  by (simp split: option.splits json.splits)

lemma validate_member_data_valid_fields:
  assumes "map_of kvs ''name'' = Some (JStr n)" "strip n \<noteq> []"
    and "map_of kvs ''email'' = Some (JStr em)" "strip em \<noteq> []"
  shows "validate_member_data ve (JObj kvs) =
           (if \<not> name_re_match n then
              Inr (False, ''Name must be 2-50 characters and contain only letters, spaces, and hyphens'')
            else (case ve (JStr em) of
                    Inl e \<Rightarrow> Inl e
                  | Inr accepted \<Rightarrow>
                      if \<not> accepted then Inr (False, ''Invalid email address'')
                      else Inr (True, '''')))"
proof -
  have "kvs \<noteq> []" using assms(1) by auto
  then show ?thesis
    using assms
    by (simp add: validate_member_data_def check_required_name_email_obj del: check_required.simps)
qed

text \<open>
  On a null or object payload the validator raises only what the library raises, and it
  reports an invalid email only when the library returns a false value.
\<close>

lemma validate_member_data_obj_raises:
  assumes "validate_member_data ve (JObj kvs) = Inl e"
  shows "\<exists>em. map_of kvs ''email'' = Some (JStr em) \<and> ve (JStr em) = Inl e"
proof (cases "kvs = []")
  case True
  then show ?thesis using assms by (simp add: validate_member_data_def)
next
  case False
  show ?thesis
  proof (cases "check_required (JObj kvs) [''name'', ''email'']")
    case (Inl x)
    then show ?thesis
      by (simp add: check_required_name_email_obj del: check_required.simps
            split: option.splits json.splits if_splits)
  next
    case (Inr r)
    show ?thesis
    proof (cases r)
      case (Some a)
      then show ?thesis using assms False Inr
        by (simp add: validate_member_data_def del: check_required.simps)
    next
      case None
      then obtain n em where f: "map_of kvs ''name'' = Some (JStr n)" "strip n \<noteq> []"
        "map_of kvs ''email'' = Some (JStr em)" "strip em \<noteq> []"
        using Inr
        by (auto simp: check_required_name_email_obj simp del: check_required.simps
            split: option.splits json.splits if_splits)
      show ?thesis
        using assms f(3) unfolding validate_member_data_valid_fields [OF f]
        by (auto split: if_splits sum.splits)
    qed
  qed
qed

lemma validate_member_data_invalid_email_message:
  assumes "validate_member_data ve (JObj kvs) = Inr (False, ''Invalid email address'')"
  shows "\<exists>em. ve (JStr em) = Inr False"
proof (cases "kvs = []")
  case True
  then show ?thesis using assms by (simp add: validate_member_data_def)
next
  case False
  show ?thesis
  proof (cases "check_required (JObj kvs) [''name'', ''email'']")
    case (Inl x)
    then show ?thesis using assms False
      by (simp add: validate_member_data_def del: check_required.simps)
  next
    case (Inr r)
    show ?thesis
    proof (cases r)
      case (Some a)
      then have "a = (False, ''Invalid email address'')"
        using assms False Inr by (simp add: validate_member_data_def del: check_required.simps)
      then show ?thesis using Inr Some
        by (simp add: check_required_name_email_obj del: check_required.simps
            split: option.splits json.splits if_splits)
    next
      case None
      then obtain n em where f: "map_of kvs ''name'' = Some (JStr n)" "strip n \<noteq> []"
        "map_of kvs ''email'' = Some (JStr em)" "strip em \<noteq> []"
        using Inr
        by (auto simp: check_required_name_email_obj simp del: check_required.simps
            split: option.splits json.splits if_splits)
      show ?thesis
        using assms unfolding validate_member_data_valid_fields [OF f]
        by (auto split: if_splits sum.splits)
    qed
  qed
qed

lemma name_re_match_examples:
  "name_re_match ''Anna Li''" "\<not> name_re_match ''A1''" "\<not> name_re_match ''A''"
  by (simp_all add: name_re_match_def name_run_def name_char_def is_ascii_letter_def
        py_isspace_def)

lemma strip_examples:
  "strip ''Anna Li'' = ''Anna Li''" "strip ''A1'' = ''A1''" "strip ''a@b.com'' = ''a@b.com''"
  "strip ''not-an-email'' = ''not-an-email''"
  by (simp_all add: strip_def py_isspace_def)

text \<open>
  C1. The validator does not turn the exception of the email library into a result:
  for an object payload whose name passes and whose email is a non-blank string, an
  exception raised by the library for that email is raised by validate_member_data.
\<close>

theorem validate_member_data_raises_what_library_raises:
  assumes "map_of kvs ''name'' = Some (JStr n)" "strip n \<noteq> []" "name_re_match n"
    and "map_of kvs ''email'' = Some (JStr em)" "strip em \<noteq> []"
    and "ve (JStr em) = Inl err"
  shows "validate_member_data ve (JObj kvs) = Inl err"
  using assms(3,6) by (simp add: validate_member_data_valid_fields [OF assms(1,2,4,5)])

theorem validate_member_data_raises_what_library_raises_witness:
  "validate_member_data (\<lambda>v. if v = JStr ''a@b.com'' then Inr True else Inl EmailNotValidError)
     (JObj [(''name'', JStr ''Anna Li''), (''email'', JStr ''not-an-email'')]) =
   Inl EmailNotValidError \<and>
   name_re_match ''Anna Li'' \<and> strip ''Anna Li'' \<noteq> [] \<and> strip ''not-an-email'' \<noteq> []"
  using validate_member_data_raises_what_library_raises
    [of "[(''name'', JStr ''Anna Li''), (''email'', JStr ''not-an-email'')]" "''Anna Li''"
        "''not-an-email''" "\<lambda>v. if v = JStr ''a@b.com'' then Inr True else Inl EmailNotValidError"
        EmailNotValidError]
  by (simp add: name_re_match_examples strip_examples)

text \<open>
  C2. With a library that accepts \<^verbatim>\<open>a@b.com\<close> and raises EmailNotValidError for
  \<^verbatim>\<open>not-an-email\<close>: the payload with name Anna Li and email \<^verbatim>\<open>a@b.com\<close> is
  accepted; the name A1 is refused with a message; for the email \<^verbatim>\<open>not-an-email\<close>
  the validator returns no result but raises EmailNotValidError.
\<close>

theorem validate_member_data_on_examples:
  assumes "ve (JStr ''a@b.com'') = Inr True"
    and "ve (JStr ''not-an-email'') = Inl EmailNotValidError"
  shows "validate_member_data ve (JObj [(''name'', JStr ''Anna Li''), (''email'', JStr ''a@b.com'')]) =
           Inr (True, '''') \<and>
         validate_member_data ve (JObj [(''name'', JStr ''A1''), (''email'', JStr ''a@b.com'')]) =
           Inr (False, ''Name must be 2-50 characters and contain only letters, spaces, and hyphens'') \<and>
         validate_member_data ve (JObj [(''name'', JStr ''Anna Li''), (''email'', JStr ''not-an-email'')]) =
           Inl EmailNotValidError"
proof (intro conjI)
  show "validate_member_data ve (JObj [(''name'', JStr ''Anna Li''), (''email'', JStr ''a@b.com'')]) =
           Inr (True, '''')"
    using assms(1)
    by (subst validate_member_data_valid_fields [of _ "''Anna Li''" "''a@b.com''"])
       (simp_all add: name_re_match_examples strip_examples)
  show "validate_member_data ve (JObj [(''name'', JStr ''A1''), (''email'', JStr ''a@b.com'')]) =
           Inr (False, ''Name must be 2-50 characters and contain only letters, spaces, and hyphens'')"
    by (subst validate_member_data_valid_fields [of _ "''A1''" "''a@b.com''"])
       (simp_all add: name_re_match_examples strip_examples)
  show "validate_member_data ve (JObj [(''name'', JStr ''Anna Li''), (''email'', JStr ''not-an-email'')]) =
           Inl EmailNotValidError"
    using assms(2)
    by (subst validate_member_data_valid_fields [of _ "''Anna Li''" "''not-an-email''"])
       (simp_all add: name_re_match_examples strip_examples)
qed

theorem validate_member_data_on_examples_witness:
  "validate_member_data (\<lambda>v. if v = JStr ''a@b.com'' then Inr True else Inl EmailNotValidError)
     (JObj [(''name'', JStr ''Anna Li''), (''email'', JStr ''a@b.com'')]) = Inr (True, '''') \<and>
   validate_member_data (\<lambda>v. if v = JStr ''a@b.com'' then Inr True else Inl EmailNotValidError)
     (JObj [(''name'', JStr ''Anna Li''), (''email'', JStr ''not-an-email'')]) \<noteq>
     Inr (False, ''Invalid email address'')"
  using validate_member_data_on_examples
    [of "\<lambda>v. if v = JStr ''a@b.com'' then Inr True else Inl EmailNotValidError"]
  by simp

subsection \<open>The handlers and the primary key\<close>

lemma create_book_cases:
  assumes "create_book data s = Inr (s', r)"
  shows "s' = s \<or>
         (\<exists>t a av. s' = db_add_book s \<lparr>book_id = fresh_id (map book_id (books s)),
                                          book_title = t, book_author = a, book_available = av\<rparr>)"
proof (cases "validate_book_data data")
  case (Inl e)
  then show ?thesis using assms by (simp add: create_book_def)
next
  case (Inr res)
  obtain is_valid error_message where res: "res = (is_valid, error_message)" by (cases res)
  show ?thesis
  proof (cases is_valid)
    case False
    then show ?thesis using assms Inr res by (simp add: create_book_def)
  next
    case True
    then show ?thesis using assms Inr res
      by (auto simp: create_book_def Let_def split: sum.splits)
  qed
qed

lemma create_member_books:
  assumes "create_member data s = Inr (s', r)"
  shows "books s' = books s"
  using assms
  by (auto simp: create_member_def db_add_member_def Let_def split: if_splits sum.splits)

text \<open>
  The primary key stays unique: a request that returns a response leaves the ids of the
  book table distinct when they were.
\<close>

lemma handlers_keep_book_ids_distinct:
  assumes "distinct (map book_id (books s))"
  shows "create_book data s = Inr (s', r) \<Longrightarrow> distinct (map book_id (books s'))"
    and "update_book bid data s = Inr (s', r) \<Longrightarrow> distinct (map book_id (books s'))"
    and "delete_book bid s = (s', r) \<Longrightarrow> distinct (map book_id (books s'))"
    and "create_member data s = Inr (s', r) \<Longrightarrow> distinct (map book_id (books s'))"
proof -
  show "distinct (map book_id (books s'))" if "create_book data s = Inr (s', r)"
    using create_book_cases [OF that] assms distinct_add_book [of s] by fastforce
  show "distinct (map book_id (books s'))" if "update_book bid data s = Inr (s', r)"
    using update_book_cases [OF that] assms by (auto simp: map_id_db_update)
  show "distinct (map book_id (books s'))" if "delete_book bid s = (s', r)"
    using that assms distinct_db_delete [of s]
    by (auto simp: delete_book_def split: option.splits)
  show "distinct (map book_id (books s'))" if "create_member data s = Inr (s', r)"
    using create_member_books [OF that] assms by simp
qed

end
